theory Spec2Isabelle
  imports Main "HOL-Library.Sublist"
begin

section \<open>Errors, collaborator calls and the observable world\<close>

text \<open>
  A Go \<^verbatim>\<open>error\<close> value is modelled by its message; \<^verbatim>\<open>nil\<close> is \<open>None\<close> of
  \<open>error option\<close>. \<open>Error_msg\<close> is the method \<^verbatim>\<open>err.Error()\<close> on a non-nil error.
\<close>

datatype error = Error string

fun Error_msg :: "error \<Rightarrow> string" where
  "Error_msg (Error s) = s"

text \<open>
  The start manager reaches the outside only through its collaborators (the interfaces
  \<^verbatim>\<open>os_helper.OsHelper\<close>, \<^verbatim>\<open>mariadb_helper.DBHelper\<close>, \<^verbatim>\<open>upgrader.Upgrader\<close>,
  \<^verbatim>\<open>galera_helper.ClusterReachabilityChecker\<close> and the logger). Every call on one of them
  is recorded, with what it returned, as an event of the trace. The last six constructors
  are the calls of the Node Starter's collaborators as its test suite names them.
\<close>

datatype event =
    NeedsUpgrade bool "error option"
  | Upgrade "error option"
  | AnyNodesReachable bool
  | StartMysqldInMode string "error option"
  | StopStandaloneMysql
  | FileExists string bool
  | ReadFile string string
  | WriteStringToFile string string "error option"
  | RunCommand string "string list" string "error option"
  | Sleep nat
  | Log string
  | HealthyCluster bool
  | StartMysqlInBootstrap "error option"
  | StartMysqlInJoin "error option"
  | IsDatabaseReachable bool
  | Seed "error option"
  | CreateReadOnlyUser "error option"

text \<open>
  The world is the local file store (path to contents) and the trace of collaborator calls
  made so far.
\<close>

record world =
  files :: "string \<rightharpoonup> string"
  trace :: "event list"

definition emit :: "event \<Rightarrow> world \<Rightarrow> world" where
  "emit e w = w\<lparr>trace := trace w @ [e]\<rparr>"

text \<open>A Go function either returns its value or panics.\<close>

datatype 'a outcome = Returns 'a | Panics

section \<open>The start manager (package \<^verbatim>\<open>mariadb_start_manager\<close>)\<close>

definition CLUSTERED :: string where
  "CLUSTERED = ''CLUSTERED''"

definition SINGLE_NODE :: string where
  "SINGLE_NODE = ''SINGLE_NODE''"

definition BOOTSTRAP_COMMAND :: string where
  "BOOTSTRAP_COMMAND = ''bootstrap''"

definition JOIN_COMMAND :: string where
  "JOIN_COMMAND = ''start''"

text \<open>The configuration fields of the struct \<^verbatim>\<open>MariaDBStartManager\<close>.\<close>

record MariaDBStartManager =
  stateFileLocation :: string
  jobIndex :: int
  numberOfNodes :: int
  dbSeedScriptPath :: string
  maxDatabaseSeedTries :: int

text \<open>
  The collaborator fields of the struct are interfaces whose implementations are outside
  the start manager; they are parameters of the model, given by what each call answers:
  \<^item> \<open>needsUpgrade_result\<close>: the pair returned by \<^verbatim>\<open>upgrader.NeedsUpgrade()\<close>;
  \<^item> \<open>upgrade_result\<close>: the error returned by \<^verbatim>\<open>upgrader.Upgrade()\<close>;
  \<^item> \<open>anyNodesReachable_result\<close>: the answer of \<^verbatim>\<open>AnyNodesReachable()\<close>;
  \<^item> \<open>startMysqldInMode_result\<close>: the error returned by
    \<^verbatim>\<open>mariaDBHelper.StartMysqldInMode(command)\<close>;
  \<^item> \<open>runCommand_result\<close>: output and error of the run of the seed script in the loop
    iteration with the given value of \<^verbatim>\<open>numTries\<close>.
  \<^item> \<open>writeStringToFile_result\<close>: the error returned by
    \<^verbatim>\<open>osHelper.WriteStringToFile(path, contents)\<close>.
  The OS helper's file operations act on the file store of the world:
  \<^verbatim>\<open>FileExists\<close> and \<^verbatim>\<open>ReadFile\<close> read it; \<^verbatim>\<open>WriteStringToFile\<close> replaces the
  contents at the path when it returns no error, and is taken to leave the file store as
  it was when it returns an error.
\<close>

record collaborators =
  needsUpgrade_result :: "bool \<times> error option"
  upgrade_result :: "error option"
  anyNodesReachable_result :: bool
  startMysqldInMode_result :: "string \<Rightarrow> error option"
  runCommand_result :: "nat \<Rightarrow> string \<times> error option"
  writeStringToFile_result :: "string \<Rightarrow> string \<Rightarrow> error option"

definition osFileExists :: "string \<Rightarrow> world \<Rightarrow> bool \<times> world" where
  "osFileExists path w = (files w path \<noteq> None, emit (FileExists path (files w path \<noteq> None)) w)"

definition osReadFile :: "string \<Rightarrow> world \<Rightarrow> string \<times> world" where
  "osReadFile path w =
     (let contents = (case files w path of Some s \<Rightarrow> s | None \<Rightarrow> [])
      in (contents, emit (ReadFile path contents) w))"

definition osWriteStringToFile ::
  "collaborators \<Rightarrow> string \<Rightarrow> string \<Rightarrow> world \<Rightarrow> error option \<times> world" where
  "osWriteStringToFile c path contents w =
     (let err = writeStringToFile_result c path contents;
          w1 = emit (WriteStringToFile path contents err) w
      in (err, if err = None then w1\<lparr>files := (files w1)(path \<mapsto> contents)\<rparr> else w1))"

definition logger_Log :: "string \<Rightarrow> world \<Rightarrow> world" where
  "logger_Log msg w = emit (Log msg) w"

definition startMysqldInMode :: "collaborators \<Rightarrow> string \<Rightarrow> world \<Rightarrow> error option \<times> world" where
  "startMysqldInMode c command w =
     (startMysqldInMode_result c command,
      emit (StartMysqldInMode command (startMysqldInMode_result c command)) w)"

text \<open>
  \<^verbatim>\<open>seedDatabases\<close>: the loop \<^verbatim>\<open>for numTries := 0; numTries < m.maxDatabaseSeedTries; numTries++\<close>
  with its variables \<^verbatim>\<open>output\<close> and \<^verbatim>\<open>err\<close>, and the code after the loop. After the
  loop the source evaluates \<^verbatim>\<open>err.Error()\<close>: on a nil \<^verbatim>\<open>err\<close> (the loop body never ran)
  that is a nil dereference, so the function panics before it logs or stops the daemon.
\<close>

function seedDatabases_loop ::
  "MariaDBStartManager \<Rightarrow> collaborators \<Rightarrow> int \<Rightarrow> string \<Rightarrow> error option \<Rightarrow> world
     \<Rightarrow> error option outcome \<times> world" where
  "seedDatabases_loop m c numTries output err w =
     (if numTries < maxDatabaseSeedTries m then
        (let output' = fst (runCommand_result c (nat numTries));
             err' = snd (runCommand_result c (nat numTries));
             w1 = emit (RunCommand ''bash'' [dbSeedScriptPath m] output' err') w
         in if err' = None then
              (Returns None, logger_Log ''Seeding databases succeeded.'' w1)
            else
              seedDatabases_loop m c (numTries + 1) output' err'
                (emit (Sleep 1)
                  (logger_Log ''Retrying seeding script...''
                    (logger_Log (''There was a problem seeding the database: '' @ [CHR 0x27]
                                   @ output' @ [CHR 0x27]) w1))))
      else
        (case err of
           None \<Rightarrow> (Panics, w)
         | Some e \<Rightarrow>
             (Returns (Some e),
              emit StopStandaloneMysql
                (logger_Log (''Error seeding databases: '' @ [CHR 0x27] @ Error_msg e @ [CHR 0x27]
                               @ [CHR 0x0A] @ [CHR 0x27] @ output @ [CHR 0x27]) w))))"
  by pat_completeness auto
termination
  by (relation "measure (\<lambda>(m, c, numTries, output, err, w). nat (maxDatabaseSeedTries m - numTries))")
     auto

declare seedDatabases_loop.simps [simp del]

definition seedDatabases ::
  "MariaDBStartManager \<Rightarrow> collaborators \<Rightarrow> world \<Rightarrow> error option outcome \<times> world" where
  "seedDatabases m c w = seedDatabases_loop m c 0 [] None w"

definition bootstrapNode :: "collaborators \<Rightarrow> world \<Rightarrow> error option \<times> world" where
  "bootstrapNode c w =
     (let reachable = anyNodesReachable_result c;
          w1 = emit (AnyNodesReachable reachable) w;
          command = (if reachable then JOIN_COMMAND else BOOTSTRAP_COMMAND)
      in startMysqldInMode c command w1)"

text \<open>
  \<^verbatim>\<open>writeStringToFile\<close> and \<^verbatim>\<open>bootstrapCluster\<close> call
  \<^verbatim>\<open>m.osHelper.WriteStringToFile\<close> as a statement: the error it returns is discarded
  (\<open>snd\<close> keeps the world only).
\<close>

definition writeStringToFile ::
  "MariaDBStartManager \<Rightarrow> collaborators \<Rightarrow> string \<Rightarrow> world \<Rightarrow> world" where
  "writeStringToFile m c contents w =
     snd (osWriteStringToFile c (stateFileLocation m) contents
            (logger_Log (''updating file with contents: '' @ [CHR 0x27] @ contents @ [CHR 0x27]) w))"

definition bootstrapCluster ::
  "MariaDBStartManager \<Rightarrow> collaborators \<Rightarrow> string \<Rightarrow> world \<Rightarrow> error option outcome \<times> world" where
  "bootstrapCluster m c state w =
     (case bootstrapNode c w of
        (Some e, w1) \<Rightarrow> (Returns (Some e), w1)
      | (None, w1) \<Rightarrow>
          (case seedDatabases m c w1 of
             (Panics, w2) \<Rightarrow> (Panics, w2)
           | (Returns (Some e), w2) \<Rightarrow> (Returns (Some e), w2)
           | (Returns None, w2) \<Rightarrow>
               (Returns None,
                snd (osWriteStringToFile c (stateFileLocation m) state
                       (logger_Log (''writing file with contents: '' @ [CHR 0x27] @ state
                                      @ [CHR 0x27]) w2)))))"

definition joinCluster ::
  "MariaDBStartManager \<Rightarrow> collaborators \<Rightarrow> world \<Rightarrow> error option outcome \<times> world" where
  "joinCluster m c w =
     (case startMysqldInMode c JOIN_COMMAND w of
        (Some e, w1) \<Rightarrow> (Returns (Some e), w1)
      | (None, w1) \<Rightarrow> (Returns None, writeStringToFile m c CLUSTERED w1))"

definition node0JoinCluster ::
  "MariaDBStartManager \<Rightarrow> collaborators \<Rightarrow> world \<Rightarrow> error option outcome \<times> world" where
  "node0JoinCluster m c w =
     (case startMysqldInMode c JOIN_COMMAND w of
        (Some e, w1) \<Rightarrow> (Returns (Some e), w1)
      | (None, w1) \<Rightarrow>
          (case seedDatabases m c w1 of
             (Panics, w2) \<Rightarrow> (Panics, w2)
           | (Returns (Some e), w2) \<Rightarrow> (Returns (Some e), w2)
           | (Returns None, w2) \<Rightarrow> (Returns None, writeStringToFile m c CLUSTERED w2)))"

text \<open>
  \<^verbatim>\<open>Execute\<close>, branch by branch in the order of the source: the upgrade check, the
  upgrade, nodes other than node 0, the single-node deploy, the missing state file, the
  state file that says \<^verbatim>\<open>SINGLE_NODE\<close>, and every other content of the state file.
\<close>

definition Execute ::
  "MariaDBStartManager \<Rightarrow> collaborators \<Rightarrow> world \<Rightarrow> error option outcome \<times> world" where
  "Execute m c w =
     (let needsUpgrade = fst (needsUpgrade_result c);
          err = snd (needsUpgrade_result c);
          w1 = emit (NeedsUpgrade needsUpgrade err) w
      in case err of
           Some e \<Rightarrow>
             (Returns (Some e),
              logger_Log (''Failed to determine upgrade status with error: '' @ Error_msg e) w1)
         | None \<Rightarrow>
             (case (if needsUpgrade then (upgrade_result c, emit (Upgrade (upgrade_result c)) w1)
                    else (None, w1)) of
                (Some e, w2) \<Rightarrow>
                  (Returns (Some e),
                   logger_Log (''Failed to upgrade with error: '' @ Error_msg e) w2)
              | (None, w2) \<Rightarrow>
                  (if jobIndex m \<noteq> 0 then joinCluster m c w2
                   else if numberOfNodes m = 1 then
                     bootstrapCluster m c SINGLE_NODE (logger_Log ''Single node deploy'' w2)
                   else
                     (case osFileExists (stateFileLocation m) w2 of
                        (fileExists, w3) \<Rightarrow>
                          if \<not> fileExists then
                            bootstrapCluster m c CLUSTERED
                              (logger_Log (''state file does not exist, creating with contents: ''
                                             @ [CHR 0x27] @ CLUSTERED @ [CHR 0x27]) w3)
                          else
                            (case osReadFile (stateFileLocation m) w3 of
                               (state, w4) \<Rightarrow>
                                 (let w5 = logger_Log (''state file exists and contains: ''
                                                         @ [CHR 0x27] @ state @ [CHR 0x27]) w4
                                  in if state = SINGLE_NODE then bootstrapCluster m c CLUSTERED w5
                                     else node0JoinCluster m c w5))))))"

text \<open>One boot: \<^verbatim>\<open>Execute\<close> run once on a file store, with an empty trace.\<close>

definition boot ::
  "MariaDBStartManager \<Rightarrow> collaborators \<Rightarrow> (string \<rightharpoonup> string) \<Rightarrow> error option outcome \<times> world" where
  "boot m c fs = Execute m c \<lparr>files = fs, trace = []\<rparr>"

subsection \<open>What a trace shows\<close>

text \<open>
  Projections of a trace: the writes of files (path and contents of every call, whatever
  it returned), the modes in which the
  daemon was started, the results of the runs of the seed script, and the results of the
  creations of the read-only user.
\<close>

definition state_file_writes :: "event list \<Rightarrow> (string \<times> string) list" where
  "state_file_writes tr =
     concat (map (\<lambda>e. case e of WriteStringToFile path contents r \<Rightarrow> [(path, contents)] | _ \<Rightarrow> []) tr)"

definition started_modes :: "event list \<Rightarrow> string list" where
  "started_modes tr =
     concat (map (\<lambda>e. case e of StartMysqldInMode command r \<Rightarrow> [command] | _ \<Rightarrow> []) tr)"

definition seed_attempts :: "event list \<Rightarrow> error option list" where
  "seed_attempts tr =
     concat (map (\<lambda>e. case e of RunCommand exe args out r \<Rightarrow> [r] | _ \<Rightarrow> []) tr)"

definition user_creations :: "event list \<Rightarrow> error option list" where
  "user_creations tr =
     concat (map (\<lambda>e. case e of CreateReadOnlyUser r \<Rightarrow> [r] | _ \<Rightarrow> []) tr)"

definition is_state_file_write :: "event \<Rightarrow> bool" where
  "is_state_file_write e = (case e of WriteStringToFile p s r \<Rightarrow> True | _ \<Rightarrow> False)"

definition start_succeeded :: "event \<Rightarrow> bool" where
  "start_succeeded e = (case e of StartMysqldInMode command r \<Rightarrow> r = None | _ \<Rightarrow> False)"

definition seed_succeeded :: "event \<Rightarrow> bool" where
  "seed_succeeded e =
     (case e of RunCommand exe args out r \<Rightarrow> r = None | Seed r \<Rightarrow> r = None | _ \<Rightarrow> False)"

definition user_created :: "event \<Rightarrow> bool" where
  "user_created e = (case e of CreateReadOnlyUser r \<Rightarrow> r = None | _ \<Rightarrow> False)"

text \<open>
  \<open>written_only_after g seen tr\<close>: every write of a file in \<open>tr\<close> comes after an event that
  satisfies \<open>g\<close> (\<open>seen\<close> says whether such an event happened before \<open>tr\<close>).
\<close>

fun written_only_after :: "(event \<Rightarrow> bool) \<Rightarrow> bool \<Rightarrow> event list \<Rightarrow> bool" where
  "written_only_after g seen [] = True"
| "written_only_after g seen (e # es) =
     ((is_state_file_write e \<longrightarrow> seen) \<and> written_only_after g (seen \<or> g e) es)"

text \<open>
  The upgrade step of \<^verbatim>\<open>Execute\<close> lets the boot go on: the check returned no error, and
  the upgrade, when one was needed, returned no error.
\<close>

definition upgrade_passes :: "collaborators \<Rightarrow> bool" where
  "upgrade_passes c =
     (snd (needsUpgrade_result c) = None \<and> (fst (needsUpgrade_result c) \<longrightarrow> upgrade_result c = None))"

text \<open>
  The file store after a call of \<^verbatim>\<open>WriteStringToFile\<close>, by what the call returns.
\<close>

definition files_after_write ::
  "collaborators \<Rightarrow> string \<Rightarrow> string \<Rightarrow> (string \<rightharpoonup> string) \<Rightarrow> (string \<rightharpoonup> string)" where
  "files_after_write c path contents fs =
     (if writeStringToFile_result c path contents = None then fs(path \<mapsto> contents) else fs)"

text \<open>The state that the branch of \<^verbatim>\<open>Execute\<close> taken by a manager writes when it succeeds.\<close>

definition written_state :: "MariaDBStartManager \<Rightarrow> string" where
  "written_state m = (if jobIndex m = 0 \<and> numberOfNodes m = 1 then SINGLE_NODE else CLUSTERED)"

text \<open>
  The command with which a boot of node 0 starts the daemon: the join command when the
  deploy has several nodes and the state file exists with a content other than
  \<^verbatim>\<open>SINGLE_NODE\<close> (\<^verbatim>\<open>node0JoinCluster\<close>); otherwise the choice of \<^verbatim>\<open>bootstrapNode\<close>.
\<close>

definition node0_start_command ::
  "MariaDBStartManager \<Rightarrow> collaborators \<Rightarrow> (string \<rightharpoonup> string) \<Rightarrow> string" where
  "node0_start_command m c fs =
     (if numberOfNodes m \<noteq> 1 \<and> fs (stateFileLocation m) \<noteq> None
         \<and> fs (stateFileLocation m) \<noteq> Some SINGLE_NODE
      then JOIN_COMMAND
      else if anyNodesReachable_result c then JOIN_COMMAND else BOOTSTRAP_COMMAND)"

subsection \<open>Concrete boots\<close>

definition node0_of_three :: MariaDBStartManager where
  "node0_of_three =
     \<lparr>stateFileLocation = ''/state'', jobIndex = 0, numberOfNodes = 3,
      dbSeedScriptPath = ''/seed.sh'', maxDatabaseSeedTries = 2\<rparr>"

definition node1_of_three :: MariaDBStartManager where
  "node1_of_three = node0_of_three\<lparr>jobIndex := 1\<rparr>"

definition all_succeed :: collaborators where
  "all_succeed =
     \<lparr>needsUpgrade_result = (False, None), upgrade_result = None,
      anyNodesReachable_result = False, startMysqldInMode_result = (\<lambda>command. None),
      runCommand_result = (\<lambda>numTries. ([], None)),
      writeStringToFile_result = (\<lambda>path contents. None)\<rparr>"

definition seed_always_fails :: collaborators where
  "seed_always_fails =
     all_succeed\<lparr>runCommand_result := (\<lambda>numTries. (''no db'', Some (Error ''exit status 1'')))\<rparr>"


section \<open>The Node Starter\<close>

text \<open>
  Modelled from the spec: the state tags \<^verbatim>\<open>SINGLE_NODE\<close>, \<^verbatim>\<open>NEEDS_BOOTSTRAP\<close> and
  \<^verbatim>\<open>CLUSTERED\<close> that the Node Starter takes and returns (section 4.E: the input is drawn
  from this closed set). The source of the Node Starter (\<^verbatim>\<open>StartNodeFromState\<close>) is not
  among the source files; only its test suite is.
\<close>

datatype node_state = SingleNode | NeedsBootstrap | Clustered

text \<open>
  Modelled from the spec: the configuration of the readiness loop, \<open>T\<close> =
  \<^verbatim>\<open>DatabaseStartupTimeout\<close> and \<open>P\<close> = \<^verbatim>\<open>StartupPollingFrequencyInSeconds\<close>, both in
  seconds.
\<close>

record starter_config =
  DatabaseStartupTimeout :: nat
  StartupPollingFrequencyInSeconds :: nat

text \<open>
  Modelled from the spec: what the collaborators of the Node Starter answer (section 4.B and
  4.C): the cluster health, the two start operations, the reachability probe at each
  attempt (attempts are numbered from 1), the seed operation and the creation of the
  read-only user.
\<close>

record starter_collaborators =
  healthyCluster_result :: bool
  startMysqlInBootstrap_result :: "error option"
  startMysqlInJoin_result :: "error option"
  isDatabaseReachable_result :: "nat \<Rightarrow> bool"
  seed_result :: "error option"
  createReadOnlyUser_result :: "error option"

text \<open>Modelled from the spec: the maximum number of attempts, \<open>N = \<lfloor>T / P\<rfloor>\<close>.\<close>

definition maxAttempts :: "starter_config \<Rightarrow> nat" where
  "maxAttempts cfg = DatabaseStartupTimeout cfg div StartupPollingFrequencyInSeconds cfg"

text \<open>
  Modelled from the spec: the Timeout error of the readiness loop; the test suite asks that
  its message contains \<^verbatim>\<open>Timeout\<close>.
\<close>

definition timeoutError :: error where
  "timeoutError = Error ''Timeout''"

text \<open>
  Modelled from the spec: the readiness-polling loop. Attempt \<open>i\<close> calls the probe; on
  \<open>true\<close> the loop ends with success, otherwise it sleeps \<open>P\<close> seconds and retries;
  when no attempt is left the loop fails.
\<close>

fun readinessPoll ::
  "starter_config \<Rightarrow> starter_collaborators \<Rightarrow> nat \<Rightarrow> nat \<Rightarrow> world \<Rightarrow> bool \<times> world" where
  "readinessPoll cfg c i 0 w = (False, w)"
| "readinessPoll cfg c i (Suc remaining) w =
     (if isDatabaseReachable_result c i then (True, emit (IsDatabaseReachable True) w)
      else readinessPoll cfg c (Suc i) remaining
             (emit (Sleep (StartupPollingFrequencyInSeconds cfg))
                (emit (IsDatabaseReachable False) w)))"

text \<open>
  Modelled from the spec: \<^verbatim>\<open>startInBootstrap()\<close> of the DB helper (section 4.B), called
  by the Node Starter; the call and its result are recorded.
\<close>

definition startInBootstrap :: "starter_collaborators \<Rightarrow> world \<Rightarrow> error option \<times> world" where
  "startInBootstrap c w =
     (startMysqlInBootstrap_result c, emit (StartMysqlInBootstrap (startMysqlInBootstrap_result c)) w)"

text \<open>
  Modelled from the spec: \<^verbatim>\<open>startInJoin()\<close> of the DB helper (section 4.B), called by the
  Node Starter; the call and its result are recorded.
\<close>

definition startInJoin :: "starter_collaborators \<Rightarrow> world \<Rightarrow> error option \<times> world" where
  "startInJoin c w =
     (startMysqlInJoin_result c, emit (StartMysqlInJoin (startMysqlInJoin_result c)) w)"

text \<open>
  Modelled from the spec: the start action of the behaviour table. \<^verbatim>\<open>SINGLE_NODE\<close>
  bootstraps and \<^verbatim>\<open>CLUSTERED\<close> joins without asking for the cluster health;
  \<^verbatim>\<open>NEEDS_BOOTSTRAP\<close> asks and joins a healthy cluster, bootstraps otherwise.
\<close>

definition startAction ::
  "starter_collaborators \<Rightarrow> node_state \<Rightarrow> world \<Rightarrow> error option \<times> world" where
  "startAction c state w =
     (case state of
        SingleNode \<Rightarrow> startInBootstrap c w
      | NeedsBootstrap \<Rightarrow>
          (if healthyCluster_result c
           then startInJoin c (emit (HealthyCluster True) w)
           else startInBootstrap c (emit (HealthyCluster False) w))
      | Clustered \<Rightarrow> startInJoin c w)"

text \<open>Modelled from the spec: the output state of the behaviour table.\<close>

definition outputState :: "node_state \<Rightarrow> node_state" where
  "outputState state = (case state of SingleNode \<Rightarrow> SingleNode | _ \<Rightarrow> Clustered)"

text \<open>
  Modelled from the spec: \<^verbatim>\<open>StartNodeFromState\<close> (section 4.E). The start action; on its
  error an immediate return; the readiness loop with \<open>N\<close> attempts, whose failure is the
  Timeout error; then \<^verbatim>\<open>seed()\<close> and \<^verbatim>\<open>createReadOnlyUser()\<close>, each error returned as it
  is; then the output state.
\<close>

definition StartNodeFromState ::
  "starter_config \<Rightarrow> starter_collaborators \<Rightarrow> node_state \<Rightarrow> world \<Rightarrow> (error + node_state) \<times> world" where
  "StartNodeFromState cfg c state w =
     (case startAction c state w of
        (Some e, w1) \<Rightarrow> (Inl e, w1)
      | (None, w1) \<Rightarrow>
          (case readinessPoll cfg c 1 (maxAttempts cfg) w1 of
             (reachable, w2) \<Rightarrow>
               if \<not> reachable then (Inl timeoutError, w2)
               else
                 (let w3 = emit (Seed (seed_result c)) w2
                  in case seed_result c of
                       Some e \<Rightarrow> (Inl e, w3)
                     | None \<Rightarrow>
                         (let w4 = emit (CreateReadOnlyUser (createReadOnlyUser_result c)) w3
                          in case createReadOnlyUser_result c of
                               Some e \<Rightarrow> (Inl e, w4)
                             | None \<Rightarrow> (Inr (outputState state), w4)))))"

text \<open>One start of the Node Starter, on an empty trace.\<close>

definition start_node ::
  "starter_config \<Rightarrow> starter_collaborators \<Rightarrow> node_state \<Rightarrow> (error + node_state) \<times> world" where
  "start_node cfg c state = StartNodeFromState cfg c state \<lparr>files = Map.empty, trace = []\<rparr>"

text \<open>
  Projections of a trace of the Node Starter: the start actions issued to the DB helper, the
  answers of the reachability probes, and the results of the seed operation.
\<close>

datatype start_action = Bootstrap | Join

definition start_actions :: "event list \<Rightarrow> start_action list" where
  "start_actions tr =
     concat (map (\<lambda>e. case e of StartMysqlInBootstrap r \<Rightarrow> [Bootstrap]
                              | StartMysqlInJoin r \<Rightarrow> [Join] | _ \<Rightarrow> []) tr)"

definition reachability_probes :: "event list \<Rightarrow> bool list" where
  "reachability_probes tr =
     concat (map (\<lambda>e. case e of IsDatabaseReachable b \<Rightarrow> [b] | _ \<Rightarrow> []) tr)"

definition seed_calls :: "event list \<Rightarrow> error option list" where
  "seed_calls tr = concat (map (\<lambda>e. case e of Seed r \<Rightarrow> [r] | _ \<Rightarrow> []) tr)"

text \<open>
  Modelled from the spec: the error returned by the start action that the behaviour table
  selects for a state.
\<close>

definition start_error :: "starter_collaborators \<Rightarrow> node_state \<Rightarrow> error option" where
  "start_error c state =
     (case state of
        SingleNode \<Rightarrow> startMysqlInBootstrap_result c
      | NeedsBootstrap \<Rightarrow>
          (if healthyCluster_result c then startMysqlInJoin_result c
           else startMysqlInBootstrap_result c)
      | Clustered \<Rightarrow> startMysqlInJoin_result c)"

definition ten_by_five :: starter_config where
  "ten_by_five = \<lparr>DatabaseStartupTimeout = 10, StartupPollingFrequencyInSeconds = 5\<rparr>"

definition ready_at_once :: starter_collaborators where
  "ready_at_once =
     \<lparr>healthyCluster_result = False, startMysqlInBootstrap_result = None,
      startMysqlInJoin_result = None, isDatabaseReachable_result = (\<lambda>i. True),
      seed_result = None, createReadOnlyUser_result = None\<rparr>"

definition never_reachable :: starter_collaborators where
  "never_reachable = ready_at_once\<lparr>isDatabaseReachable_result := (\<lambda>i. False)\<rparr>"

section \<open>The main program\<close>

text \<open>
  \<^verbatim>\<open>main\<close> after the construction of its objects: what it does with the background process
  of the start manager, the PID file and the logger. The calls it makes are recorded in
  order. \<^verbatim>\<open>logger.Fatal\<close> (of the logging library) logs and panics, so the process ends
  there with a non-zero exit status and nothing after it runs.
\<close>

datatype main_call =
    ReadConfig "error option"
  | SelectProcessExited "error option"
  | SelectProcessReady
  | LoggerInfo string
  | IoutilWriteFile string string "error option"
  | ProcessSignalKill
  | ProcessWait "error option"
  | LoggerFatal string "error option"

datatype exit_status = ExitZero | ExitNonZero

text \<open>Which case of the \<^verbatim>\<open>select\<close> fires: the process ended, or it signalled ready.\<close>

datatype startup = Exited "error option" | Ready

text \<open>
  The parts of the environment that \<^verbatim>\<open>main\<close> observes: the result of reading the
  configuration, the configured path of the PID file, the process id as a decimal string,
  the case of the \<^verbatim>\<open>select\<close>, the result of writing the PID file, and what the channel
  \<^verbatim>\<open>process.Wait()\<close> delivers after the kill signal and at the end of a normal run.
\<close>

record main_env =
  configRead_result :: "error option"
  PidFile :: string
  pid :: string
  startup_result :: startup
  writeFile_result :: "error option"
  wait_after_kill :: "error option"
  wait_at_end :: "error option"

definition writePidFile :: "main_env \<Rightarrow> main_call list \<times> error option" where
  "writePidFile env =
     ([LoggerInfo (''Writing pid to '' @ PidFile env),
       IoutilWriteFile (PidFile env) (pid env) (writeFile_result env)],
      writeFile_result env)"

definition main :: "main_env \<Rightarrow> main_call list \<times> exit_status" where
  "main env =
     (case configRead_result env of
        Some e \<Rightarrow>
          ([ReadConfig (Some e), LoggerFatal ''Error reading config file'' (Some e)], ExitNonZero)
      | None \<Rightarrow>
          (case startup_result env of
             Exited err \<Rightarrow>
               ([ReadConfig None, SelectProcessExited err,
                 LoggerFatal ''Error starting mariadb'' err], ExitNonZero)
           | Ready \<Rightarrow>
               (case writePidFile env of
                  (calls, Some e) \<Rightarrow>
                    ([ReadConfig None, SelectProcessReady] @ calls @
                     [ProcessSignalKill, ProcessWait (wait_after_kill env),
                      LoggerFatal ''Error writing pidfile'' (Some e)], ExitNonZero)
                | (calls, None) \<Rightarrow>
                    (case wait_at_end env of
                       Some e \<Rightarrow>
                         ([ReadConfig None, SelectProcessReady] @ calls @
                          [LoggerInfo ''mariadb_ctrl started'', ProcessWait (Some e),
                           LoggerFatal ''Error starting mariadb_ctrl'' (Some e)], ExitNonZero)
                     | None \<Rightarrow>
                         ([ReadConfig None, SelectProcessReady] @ calls @
                          [LoggerInfo ''mariadb_ctrl started'', ProcessWait None], ExitZero)))))"

definition pid_write_fails :: main_env where
  "pid_write_fails =
     \<lparr>configRead_result = None, PidFile = ''/run/mariadb_ctrl.pid'', pid = ''4242'',
      startup_result = Ready, writeFile_result = Some (Error ''permission denied''),
      wait_after_kill = None, wait_at_end = None\<rparr>"

section \<open>Facts about traces and the seeding loop\<close>

subsection \<open>Projections and the basic operations\<close>

lemma state_file_writes_simps [simp]:
  "state_file_writes [] = []"
  "state_file_writes (e # es) =
     (case e of WriteStringToFile p s r \<Rightarrow> [(p, s)] | _ \<Rightarrow> []) @ state_file_writes es"
  "state_file_writes (xs @ ys) = state_file_writes xs @ state_file_writes ys"
  by (simp_all add: state_file_writes_def)

lemma started_modes_simps [simp]:
  "started_modes [] = []"
  "started_modes (e # es) =
     (case e of StartMysqldInMode command r \<Rightarrow> [command] | _ \<Rightarrow> []) @ started_modes es"
  "started_modes (xs @ ys) = started_modes xs @ started_modes ys"
  by (simp_all add: started_modes_def)

lemma trace_emit [simp]: "trace (emit e w) = trace w @ [e]"
  by (simp add: emit_def)

lemma files_emit [simp]: "files (emit e w) = files w"
  by (simp add: emit_def)

lemma trace_logger_Log [simp]: "trace (logger_Log s w) = trace w @ [Log s]"
  by (simp add: logger_Log_def)

lemma files_logger_Log [simp]: "files (logger_Log s w) = files w"
  by (simp add: logger_Log_def)

lemma trace_osWriteStringToFile [simp]:
  "trace (snd (osWriteStringToFile c p s w)) =
     trace w @ [WriteStringToFile p s (writeStringToFile_result c p s)]"
  by (simp add: osWriteStringToFile_def Let_def)

lemma files_osWriteStringToFile [simp]:
  "files (snd (osWriteStringToFile c p s w)) = files_after_write c p s (files w)"
  by (simp add: osWriteStringToFile_def files_after_write_def Let_def)

subsection \<open>What the seeding loop leaves alone\<close>

lemma files_seedDatabases_loop [simp]:
  "files (snd (seedDatabases_loop m c n out err w)) = files w"
proof (induction m c n out err w rule: seedDatabases_loop.induct)
  case (1 m c numTries out err w)
  show ?case
    using "1.IH"
    by (subst seedDatabases_loop.simps) (simp add: Let_def split: option.split)
qed

lemma writes_seedDatabases_loop [simp]:
  "state_file_writes (trace (snd (seedDatabases_loop m c n out err w))) = state_file_writes (trace w)"
proof (induction m c n out err w rule: seedDatabases_loop.induct)
  case (1 m c numTries out err w)
  show ?case
    using "1.IH"
    by (subst seedDatabases_loop.simps) (simp add: Let_def split: option.split)
qed

lemma modes_seedDatabases_loop [simp]:
  "started_modes (trace (snd (seedDatabases_loop m c n out err w))) = started_modes (trace w)"
proof (induction m c n out err w rule: seedDatabases_loop.induct)
  case (1 m c numTries out err w)
  show ?case
    using "1.IH"
    by (subst seedDatabases_loop.simps) (simp add: Let_def split: option.split)
qed

lemma files_seedDatabases [simp]: "files (snd (seedDatabases m c w)) = files w"
  by (simp add: seedDatabases_def)

lemma writes_seedDatabases [simp]:
  "state_file_writes (trace (snd (seedDatabases m c w))) = state_file_writes (trace w)"
  by (simp add: seedDatabases_def)

lemma modes_seedDatabases [simp]:
  "started_modes (trace (snd (seedDatabases m c w))) = started_modes (trace w)"
  by (simp add: seedDatabases_def)

subsection \<open>Files and writes of each branch of Execute\<close>

lemma bootstrapCluster_files:
  "files (snd (bootstrapCluster m c st w)) =
     (if fst (bootstrapCluster m c st w) = Returns None
      then files_after_write c (stateFileLocation m) st (files w)
      else files w)"
  by (simp add: bootstrapCluster_def bootstrapNode_def startMysqldInMode_def case_prod_beta Let_def
      split: option.split outcome.split)

lemma bootstrapCluster_writes:
  "state_file_writes (trace (snd (bootstrapCluster m c st w))) =
     state_file_writes (trace w) @
       (if fst (bootstrapCluster m c st w) = Returns None then [(stateFileLocation m, st)] else [])"
  by (simp add: bootstrapCluster_def bootstrapNode_def startMysqldInMode_def case_prod_beta Let_def
      split: option.split outcome.split)

lemma joinCluster_files:
  "files (snd (joinCluster m c w)) =
     (if fst (joinCluster m c w) = Returns None
      then files_after_write c (stateFileLocation m) CLUSTERED (files w)
      else files w)"
  by (simp add: joinCluster_def startMysqldInMode_def writeStringToFile_def case_prod_beta
      split: option.split)

lemma joinCluster_writes:
  "state_file_writes (trace (snd (joinCluster m c w))) =
     state_file_writes (trace w) @
       (if fst (joinCluster m c w) = Returns None then [(stateFileLocation m, CLUSTERED)] else [])"
  by (simp add: joinCluster_def startMysqldInMode_def writeStringToFile_def case_prod_beta
      split: option.split)

lemma node0JoinCluster_files:
  "files (snd (node0JoinCluster m c w)) =
     (if fst (node0JoinCluster m c w) = Returns None
      then files_after_write c (stateFileLocation m) CLUSTERED (files w)
      else files w)"
  by (simp add: node0JoinCluster_def startMysqldInMode_def writeStringToFile_def case_prod_beta
      split: option.split outcome.split)

lemma node0JoinCluster_writes:
  "state_file_writes (trace (snd (node0JoinCluster m c w))) =
     state_file_writes (trace w) @
       (if fst (node0JoinCluster m c w) = Returns None then [(stateFileLocation m, CLUSTERED)] else [])"
  by (simp add: node0JoinCluster_def startMysqldInMode_def writeStringToFile_def case_prod_beta
      split: option.split outcome.split)

lemma Execute_files:
  "files (snd (Execute m c w)) =
     (if fst (Execute m c w) = Returns None
      then files_after_write c (stateFileLocation m) (written_state m) (files w)
      else files w)"
  by (simp add: Execute_def written_state_def osFileExists_def osReadFile_def case_prod_beta Let_def
        bootstrapCluster_files joinCluster_files node0JoinCluster_files
      split: option.split)

lemma Execute_writes:
  "state_file_writes (trace (snd (Execute m c w))) =
     state_file_writes (trace w) @
       (if fst (Execute m c w) = Returns None then [(stateFileLocation m, written_state m)] else [])"
  by (simp add: Execute_def written_state_def osFileExists_def osReadFile_def case_prod_beta Let_def
        bootstrapCluster_writes joinCluster_writes node0JoinCluster_writes
      split: option.split)

subsection \<open>Start modes of each branch\<close>

lemma bootstrapCluster_modes:
  "started_modes (trace (snd (bootstrapCluster m c st w))) =
     started_modes (trace w) @ [if anyNodesReachable_result c then JOIN_COMMAND else BOOTSTRAP_COMMAND]"
  by (simp add: bootstrapCluster_def bootstrapNode_def startMysqldInMode_def case_prod_beta Let_def
      split: option.split outcome.split)

lemma joinCluster_modes:
  "started_modes (trace (snd (joinCluster m c w))) = started_modes (trace w) @ [JOIN_COMMAND]"
  by (simp add: joinCluster_def startMysqldInMode_def writeStringToFile_def case_prod_beta
      split: option.split)

lemma node0JoinCluster_modes:
  "started_modes (trace (snd (node0JoinCluster m c w))) = started_modes (trace w) @ [JOIN_COMMAND]"
  by (simp add: node0JoinCluster_def startMysqldInMode_def writeStringToFile_def case_prod_beta
      split: option.split outcome.split)

lemma Execute_modes_other_nodes:
  "jobIndex m \<noteq> 0 \<Longrightarrow>
     started_modes (trace (snd (Execute m c w))) =
       started_modes (trace w) @ (if upgrade_passes c then [JOIN_COMMAND] else [])"
  by (simp add: Execute_def upgrade_passes_def case_prod_beta Let_def joinCluster_modes
      split: option.split)

lemma Execute_modes_unrecognised:
  "jobIndex m = 0 \<Longrightarrow> numberOfNodes m \<noteq> 1 \<Longrightarrow> files w (stateFileLocation m) = Some s \<Longrightarrow>
   s \<noteq> SINGLE_NODE \<Longrightarrow> upgrade_passes c \<Longrightarrow>
     started_modes (trace (snd (Execute m c w))) = started_modes (trace w) @ [JOIN_COMMAND]"
  by (simp add: Execute_def upgrade_passes_def osFileExists_def osReadFile_def case_prod_beta Let_def
        node0JoinCluster_modes
      split: option.split)


subsection \<open>Events before a write\<close>

lemma written_only_after_append [simp]:
  "written_only_after g seen (xs @ ys) =
     (written_only_after g seen xs \<and> written_only_after g (seen \<or> list_ex g xs) ys)"
  by (induction xs arbitrary: seen) auto

lemma is_state_file_write_simps [simp]:
  "\<not> is_state_file_write (NeedsUpgrade b r)"
  "\<not> is_state_file_write (Upgrade r)"
  "\<not> is_state_file_write (AnyNodesReachable b)"
  "\<not> is_state_file_write (StartMysqldInMode command r)"
  "\<not> is_state_file_write StopStandaloneMysql"
  "\<not> is_state_file_write (FileExists p b)"
  "\<not> is_state_file_write (ReadFile p s)"
  "is_state_file_write (WriteStringToFile p s r)"
  "\<not> is_state_file_write (RunCommand exe args out r)"
  "\<not> is_state_file_write (Sleep n)"
  "\<not> is_state_file_write (Log msg)"
  "\<not> is_state_file_write (HealthyCluster b)"
  "\<not> is_state_file_write (StartMysqlInBootstrap r)"
  "\<not> is_state_file_write (StartMysqlInJoin r)"
  "\<not> is_state_file_write (IsDatabaseReachable b)"
  "\<not> is_state_file_write (Seed r)"
  "\<not> is_state_file_write (CreateReadOnlyUser r)"
  by (simp_all add: is_state_file_write_def)

lemma start_succeeded_simps [simp]:
  "\<not> start_succeeded (NeedsUpgrade b r)"
  "\<not> start_succeeded (Upgrade r)"
  "\<not> start_succeeded (AnyNodesReachable b)"
  "start_succeeded (StartMysqldInMode command r) = (r = None)"
  "\<not> start_succeeded StopStandaloneMysql"
  "\<not> start_succeeded (FileExists p b)"
  "\<not> start_succeeded (ReadFile p s)"
  "\<not> start_succeeded (WriteStringToFile p s r)"
  "\<not> start_succeeded (RunCommand exe args out r)"
  "\<not> start_succeeded (Sleep n)"
  "\<not> start_succeeded (Log msg)"
  "\<not> start_succeeded (HealthyCluster b)"
  "\<not> start_succeeded (StartMysqlInBootstrap r)"
  "\<not> start_succeeded (StartMysqlInJoin r)"
  "\<not> start_succeeded (IsDatabaseReachable b)"
  "\<not> start_succeeded (Seed r)"
  "\<not> start_succeeded (CreateReadOnlyUser r)"
  by (simp_all add: start_succeeded_def)

lemma seed_succeeded_simps [simp]:
  "\<not> seed_succeeded (NeedsUpgrade b r)"
  "\<not> seed_succeeded (Upgrade r)"
  "\<not> seed_succeeded (AnyNodesReachable b)"
  "\<not> seed_succeeded (StartMysqldInMode command r)"
  "\<not> seed_succeeded StopStandaloneMysql"
  "\<not> seed_succeeded (FileExists p b)"
  "\<not> seed_succeeded (ReadFile p s)"
  "\<not> seed_succeeded (WriteStringToFile p s r)"
  "seed_succeeded (RunCommand exe args out r) = (r = None)"
  "\<not> seed_succeeded (Sleep n)"
  "\<not> seed_succeeded (Log msg)"
  "\<not> seed_succeeded (HealthyCluster b)"
  "\<not> seed_succeeded (StartMysqlInBootstrap r)"
  "\<not> seed_succeeded (StartMysqlInJoin r)"
  "\<not> seed_succeeded (IsDatabaseReachable b)"
  "seed_succeeded (Seed r) = (r = None)"
  "\<not> seed_succeeded (CreateReadOnlyUser r)"
  by (simp_all add: seed_succeeded_def)

lemma user_created_simps [simp]:
  "\<not> user_created (NeedsUpgrade b r)"
  "\<not> user_created (Upgrade r)"
  "\<not> user_created (AnyNodesReachable b)"
  "\<not> user_created (StartMysqldInMode command r)"
  "\<not> user_created StopStandaloneMysql"
  "\<not> user_created (FileExists p b)"
  "\<not> user_created (ReadFile p s)"
  "\<not> user_created (WriteStringToFile p s r)"
  "\<not> user_created (RunCommand exe args out r)"
  "\<not> user_created (Sleep n)"
  "\<not> user_created (Log msg)"
  "\<not> user_created (HealthyCluster b)"
  "\<not> user_created (StartMysqlInBootstrap r)"
  "\<not> user_created (StartMysqlInJoin r)"
  "\<not> user_created (IsDatabaseReachable b)"
  "\<not> user_created (Seed r)"
  "user_created (CreateReadOnlyUser r) = (r = None)"
  by (simp_all add: user_created_def)

lemma woa_seedDatabases_loop [simp]:
  "written_only_after g seen (trace (snd (seedDatabases_loop m c n out err w))) =
     written_only_after g seen (trace w)"
proof (induction m c n out err w rule: seedDatabases_loop.induct)
  case (1 m c numTries out err w)
  show ?case
    using "1.IH"
    by (subst seedDatabases_loop.simps) (simp add: Let_def split: option.split)
qed

lemma start_seen_seedDatabases_loop [simp]:
  "list_ex start_succeeded (trace (snd (seedDatabases_loop m c n out err w))) =
     list_ex start_succeeded (trace w)"
proof (induction m c n out err w rule: seedDatabases_loop.induct)
  case (1 m c numTries out err w)
  show ?case
    using "1.IH"
    by (subst seedDatabases_loop.simps) (simp add: Let_def split: option.split)
qed

subsection \<open>The three cases of one loop iteration\<close>

lemma seedDatabases_loop_done:
  "numTries < maxDatabaseSeedTries m \<Longrightarrow> snd (runCommand_result c (nat numTries)) = None \<Longrightarrow>
     seedDatabases_loop m c numTries out err w =
       (Returns None,
        logger_Log ''Seeding databases succeeded.''
          (emit (RunCommand ''bash'' [dbSeedScriptPath m] (fst (runCommand_result c (nat numTries))) None) w))"
  by (subst seedDatabases_loop.simps) (simp add: Let_def)


lemma seedDatabases_loop_exit:
  "\<not> numTries < maxDatabaseSeedTries m \<Longrightarrow>
     seedDatabases_loop m c numTries out err w =
       (case err of
          None \<Rightarrow> (Panics, w)
        | Some e \<Rightarrow>
            (Returns (Some e),
             emit StopStandaloneMysql
               (logger_Log (''Error seeding databases: '' @ [CHR 0x27] @ Error_msg e @ [CHR 0x27]
                              @ [CHR 0x0A] @ [CHR 0x27] @ out @ [CHR 0x27]) w)))"
  by (subst seedDatabases_loop.simps) simp


subsection \<open>When every run of the seed script fails\<close>

lemma seed_attempts_simps [simp]:
  "seed_attempts [] = []"
  "seed_attempts (e # es) =
     (case e of RunCommand exe args out r \<Rightarrow> [r] | _ \<Rightarrow> []) @ seed_attempts es"
  "seed_attempts (xs @ ys) = seed_attempts xs @ seed_attempts ys"
  by (simp_all add: seed_attempts_def)




text \<open>
  Without a try (\<^verbatim>\<open>maxDatabaseSeedTries\<close> not positive) the loop body never runs,
  \<^verbatim>\<open>err\<close> is still nil after the loop and \<^verbatim>\<open>err.Error()\<close> panics.
\<close>

lemma seedDatabases_without_tries_panics:
  "maxDatabaseSeedTries m \<le> 0 \<Longrightarrow> seedDatabases m c w = (Panics, w)"
  by (simp add: seedDatabases_def seedDatabases_loop_exit)


lemma seed_attempts_bootstrapNode [simp]:
  "seed_attempts (trace (snd (bootstrapNode c w))) = seed_attempts (trace w)"
  by (simp add: bootstrapNode_def startMysqldInMode_def Let_def)



lemma Execute_node0_branch:
  assumes "upgrade_passes c" and "jobIndex m = 0"
  shows "\<exists>w'. seed_attempts (trace w') = seed_attempts (trace w) \<and>
       Execute m c w =
         (if numberOfNodes m \<noteq> 1 \<and> files w (stateFileLocation m) \<noteq> None
             \<and> files w (stateFileLocation m) \<noteq> Some SINGLE_NODE
          then node0JoinCluster m c w'
          else bootstrapCluster m c (if numberOfNodes m = 1 then SINGLE_NODE else CLUSTERED) w')"
proof (cases "numberOfNodes m = 1")
  case True
  let ?w' = "logger_Log ''Single node deploy''
    (if fst (needsUpgrade_result c) then emit (Upgrade None) (emit (NeedsUpgrade True None) w)
     else emit (NeedsUpgrade False None) w)"
  have "Execute m c w = bootstrapCluster m c SINGLE_NODE ?w'"
    using True assms
    by (auto simp: Execute_def upgrade_passes_def case_prod_beta Let_def split: option.split)
  moreover have "seed_attempts (trace ?w') = seed_attempts (trace w)"
    by simp
  ultimately show ?thesis
    using True by (intro exI [of _ ?w']) simp
next
  case False
  let ?w2 = "if fst (needsUpgrade_result c) then emit (Upgrade None) (emit (NeedsUpgrade True None) w)
     else emit (NeedsUpgrade False None) w"
  let ?w3 = "snd (osFileExists (stateFileLocation m) ?w2)"
  let ?wa = "logger_Log (''state file does not exist, creating with contents: ''
                                           @ [CHR 0x27] @ CLUSTERED @ [CHR 0x27]) ?w3"
  let ?w4 = "snd (osReadFile (stateFileLocation m) ?w3)"
  let ?w5 = "logger_Log (''state file exists and contains: ''
                @ [CHR 0x27] @ fst (osReadFile (stateFileLocation m) ?w3) @ [CHR 0x27]) ?w4"
  have sa: "seed_attempts (trace ?wa) = seed_attempts (trace w)"
    "seed_attempts (trace ?w5) = seed_attempts (trace w)"
    by (simp_all add: osFileExists_def osReadFile_def Let_def)
  show ?thesis
  proof (cases "files w (stateFileLocation m)")
    case None
    have "Execute m c w = bootstrapCluster m c CLUSTERED ?wa"
      using False None assms
      by (auto simp: Execute_def upgrade_passes_def osFileExists_def case_prod_beta Let_def
          split: option.split)
    then show ?thesis
      using False None sa(1) by (intro exI [of _ ?wa]) simp
  next
    case (Some s)
    show ?thesis
    proof (cases "s = SINGLE_NODE")
      case True
      have "Execute m c w = bootstrapCluster m c CLUSTERED ?w5"
        using False Some True assms
        by (auto simp: Execute_def upgrade_passes_def osFileExists_def osReadFile_def
            case_prod_beta Let_def split: option.split)
      then show ?thesis
        using False Some True sa(2) by (intro exI [of _ ?w5]) simp
    next
      case notsingle: False
      have "Execute m c w = node0JoinCluster m c ?w5"
        using False Some notsingle assms
        by (auto simp: Execute_def upgrade_passes_def osFileExists_def osReadFile_def
            case_prod_beta Let_def split: option.split)
      then show ?thesis
        using False Some notsingle sa(2)
        by (intro exI [of _ ?w5]) simp
    qed
  qed
qed

subsection \<open>Every run of the seed script fails, stated on the inputs\<close>






subsection \<open>User creation and the order of writes in each branch\<close>

lemma user_creations_simps [simp]:
  "user_creations [] = []"
  "user_creations (e # es) =
     (case e of CreateReadOnlyUser r \<Rightarrow> [r] | _ \<Rightarrow> []) @ user_creations es"
  "user_creations (xs @ ys) = user_creations xs @ user_creations ys"
  by (simp_all add: user_creations_def)

lemma users_seedDatabases_loop [simp]:
  "user_creations (trace (snd (seedDatabases_loop m c n out err w))) = user_creations (trace w)"
proof (induction m c n out err w rule: seedDatabases_loop.induct)
  case (1 m c numTries out err w)
  show ?case
    using "1.IH"
    by (subst seedDatabases_loop.simps) (simp add: Let_def split: option.split)
qed

lemma users_seedDatabases [simp]:
  "user_creations (trace (snd (seedDatabases m c w))) = user_creations (trace w)"
  by (simp add: seedDatabases_def)

lemma woa_seedDatabases [simp]:
  "written_only_after g seen (trace (snd (seedDatabases m c w))) = written_only_after g seen (trace w)"
  by (simp add: seedDatabases_def)

lemma start_seen_seedDatabases [simp]:
  "list_ex start_succeeded (trace (snd (seedDatabases m c w))) = list_ex start_succeeded (trace w)"
  by (simp add: seedDatabases_def)














lemma node0JoinCluster_succeeds:
  assumes "startMysqldInMode_result c JOIN_COMMAND = None"
    and "0 < maxDatabaseSeedTries m"
    and "snd (runCommand_result c 0) = None"
  shows "fst (node0JoinCluster m c w) = Returns None"
  using assms
  by (simp add: node0JoinCluster_def startMysqldInMode_def case_prod_beta seedDatabases_def
      seedDatabases_loop_done)

lemma Execute_unrecognised_succeeds:
  assumes "jobIndex m = 0" "numberOfNodes m \<noteq> 1" "files w (stateFileLocation m) = Some s"
    and "s \<noteq> SINGLE_NODE" "upgrade_passes c"
    and "startMysqldInMode_result c JOIN_COMMAND = None"
    and "0 < maxDatabaseSeedTries m"
    and "snd (runCommand_result c 0) = None"
  shows "fst (Execute m c w) = Returns None"
  using assms
  by (simp add: Execute_def upgrade_passes_def osFileExists_def osReadFile_def case_prod_beta Let_def
      node0JoinCluster_succeeds split: option.split)

text \<open>
  On node 0, once the daemon has started, a boot without a try panics in
  \<^verbatim>\<open>seedDatabases\<close>: the daemon is not stopped and \<^verbatim>\<open>Execute\<close> returns nothing.
\<close>

lemma boot_without_tries_panics:
  assumes "jobIndex m = 0" and "upgrade_passes c"
    and "startMysqldInMode_result c (node0_start_command m c fs) = None"
    and "maxDatabaseSeedTries m \<le> 0"
  shows "fst (boot m c fs) = Panics"
proof -
  from Execute_node0_branch [OF assms(2,1), of "\<lparr>files = fs, trace = []\<rparr>"]
  obtain w' where "Execute m c \<lparr>files = fs, trace = []\<rparr> =
         (if numberOfNodes m \<noteq> 1 \<and> fs (stateFileLocation m) \<noteq> None
             \<and> fs (stateFileLocation m) \<noteq> Some SINGLE_NODE
          then node0JoinCluster m c w'
          else bootstrapCluster m c (if numberOfNodes m = 1 then SINGLE_NODE else CLUSTERED) w')"
    by auto
  then show ?thesis
    using assms(3,4)
    by (auto simp: boot_def node0_start_command_def bootstrapCluster_def node0JoinCluster_def
        bootstrapNode_def startMysqldInMode_def Let_def seedDatabases_without_tries_panics
        split: if_splits)
qed

text \<open>
  A single-node deploy goes through \<^verbatim>\<open>bootstrapNode\<close> as well, so its start mode
  follows the reachability of other nodes.
\<close>

lemma single_node_deploy_start_mode:
  "jobIndex m = 0 \<Longrightarrow> numberOfNodes m = 1 \<Longrightarrow> upgrade_passes c \<Longrightarrow>
     started_modes (trace (snd (boot m c fs))) =
       [if anyNodesReachable_result c then JOIN_COMMAND else BOOTSTRAP_COMMAND]"
  by (simp add: boot_def Execute_def upgrade_passes_def case_prod_beta Let_def bootstrapCluster_modes
      split: option.split)

text \<open>A boot that does not return nil (an error return or a panic) leaves the files alone.\<close>

lemma unsuccessful_boot_keeps_files:
  "fst (boot m c fs) \<noteq> Returns None \<Longrightarrow> files (snd (boot m c fs)) = fs"
  using Execute_files [of m c "\<lparr>files = fs, trace = []\<rparr>"]
  by (simp add: boot_def)

section \<open>The claims about the start manager\<close>

text \<open>
  C3. For every boot where \<open>jobIndex > 0\<close>, no bootstrap action is ever issued to the DB
  helper: the daemon is only ever started in join mode. The start manager starts the daemon
  once, with the join command, when the upgrade step lets the boot go on, and not at all
  otherwise; the bootstrap command never occurs.
\<close>

theorem other_nodes_only_join:
  "0 < jobIndex m \<Longrightarrow>
     started_modes (trace (snd (boot m c fs))) = (if upgrade_passes c then [JOIN_COMMAND] else [])
     \<and> BOOTSTRAP_COMMAND \<notin> set (started_modes (trace (snd (boot m c fs))))"
  using Execute_modes_other_nodes [of m c "\<lparr>files = fs, trace = []\<rparr>"]
  by (simp add: boot_def JOIN_COMMAND_def BOOTSTRAP_COMMAND_def)

theorem other_nodes_only_join_witness:
  "0 < jobIndex node1_of_three
   \<and> started_modes (trace (snd (boot node1_of_three all_succeed Map.empty))) = [JOIN_COMMAND]
   \<and> BOOTSTRAP_COMMAND \<notin> set (started_modes (trace (snd (boot node1_of_three all_succeed Map.empty))))"
  using other_nodes_only_join [of node1_of_three all_succeed Map.empty]
  by (simp add: node1_of_three_def node0_of_three_def all_succeed_def upgrade_passes_def
      JOIN_COMMAND_def BOOTSTRAP_COMMAND_def)




text \<open>
  C5. For every boot where \<^verbatim>\<open>Execute\<close> returns an error, the file store after the boot
  is the file store before it, and the boot has written no file.
\<close>

theorem failed_boot_keeps_state_file:
  "fst (boot m c fs) = Returns (Some e) \<Longrightarrow>
     files (snd (boot m c fs)) = fs \<and> state_file_writes (trace (snd (boot m c fs))) = []"
  using Execute_files [of m c "\<lparr>files = fs, trace = []\<rparr>"]
    Execute_writes [of m c "\<lparr>files = fs, trace = []\<rparr>"]
  by (simp add: boot_def)

theorem failed_boot_keeps_state_file_witness:
  "fst (boot node0_of_three seed_always_fails [''/state'' \<mapsto> ''SINGLE_NODE'']) =
     Returns (Some (Error ''exit status 1''))
   \<and> files (snd (boot node0_of_three seed_always_fails [''/state'' \<mapsto> ''SINGLE_NODE''])) =
       [''/state'' \<mapsto> ''SINGLE_NODE'']
   \<and> state_file_writes (trace (snd (boot node0_of_three seed_always_fails [''/state'' \<mapsto> ''SINGLE_NODE'']))) = []"
proof -
  have "fst (boot node0_of_three seed_always_fails [''/state'' \<mapsto> ''SINGLE_NODE'']) =
     Returns (Some (Error ''exit status 1''))"
    by code_simp
  then show ?thesis
    using failed_boot_keeps_state_file
      [of node0_of_three seed_always_fails "[''/state'' \<mapsto> ''SINGLE_NODE'']" "Error ''exit status 1''"]
    by simp
qed







text \<open>
  C8, as the code has it. On node 0 of a multi-node deploy, when the state file exists and
  its content is anything but \<^verbatim>\<open>SINGLE_NODE\<close> (the empty content and every unknown tag
  too), the start manager does not check the content: once the upgrade step has passed it
  starts the daemon with the join command. Whenever \<^verbatim>\<open>Execute\<close> then returns without
  error it has called \<^verbatim>\<open>WriteStringToFile\<close> once, with \<^verbatim>\<open>CLUSTERED\<close> on the state file,
  which holds \<^verbatim>\<open>CLUSTERED\<close> afterwards when that write returned no error; and it does
  return without error when the start and the first run of the seed script succeed.
\<close>

theorem unrecognised_state_joins:
  assumes "jobIndex m = 0" and "numberOfNodes m \<noteq> 1"
    and "fs (stateFileLocation m) = Some s" and "s \<noteq> SINGLE_NODE"
    and "upgrade_passes c"
  shows "started_modes (trace (snd (boot m c fs))) = [JOIN_COMMAND]
         \<and> (fst (boot m c fs) = Returns None \<longrightarrow>
              state_file_writes (trace (snd (boot m c fs))) = [(stateFileLocation m, CLUSTERED)]
              \<and> (writeStringToFile_result c (stateFileLocation m) CLUSTERED = None \<longrightarrow>
                   files (snd (boot m c fs)) (stateFileLocation m) = Some CLUSTERED))
         \<and> (startMysqldInMode_result c JOIN_COMMAND = None \<and> 0 < maxDatabaseSeedTries m
              \<and> snd (runCommand_result c 0) = None \<longrightarrow>
            fst (boot m c fs) = Returns None)"
  using assms Execute_modes_unrecognised [of m "\<lparr>files = fs, trace = []\<rparr>" s c]
    Execute_unrecognised_succeeds [of m "\<lparr>files = fs, trace = []\<rparr>" s c]
    Execute_files [of m c "\<lparr>files = fs, trace = []\<rparr>"]
    Execute_writes [of m c "\<lparr>files = fs, trace = []\<rparr>"]
  by (simp add: boot_def written_state_def files_after_write_def)

theorem unrecognised_state_joins_witness:
  "started_modes (trace (snd (boot node0_of_three all_succeed [''/state'' \<mapsto> ''garbage'']))) = [JOIN_COMMAND]
   \<and> fst (boot node0_of_three all_succeed [''/state'' \<mapsto> ''garbage'']) = Returns None
   \<and> state_file_writes (trace (snd (boot node0_of_three all_succeed [''/state'' \<mapsto> ''garbage'']))) =
       [(''/state'', CLUSTERED)]
   \<and> files (snd (boot node0_of_three all_succeed [''/state'' \<mapsto> ''garbage''])) ''/state'' = Some CLUSTERED"
  using unrecognised_state_joins [of node0_of_three "[''/state'' \<mapsto> ''garbage'']" "''garbage''" all_succeed]
  by (simp add: node0_of_three_def all_succeed_def upgrade_passes_def SINGLE_NODE_def)

theorem empty_state_file_counterexample:
  "jobIndex node0_of_three = 0 \<and> numberOfNodes node0_of_three = 3
   \<and> fst (boot node0_of_three all_succeed [''/state'' \<mapsto> []]) = Returns None
   \<and> started_modes (trace (snd (boot node0_of_three all_succeed [''/state'' \<mapsto> []]))) = [''start'']
   \<and> files (snd (boot node0_of_three all_succeed [''/state'' \<mapsto> []])) ''/state'' = Some ''CLUSTERED''"
  by code_simp

text \<open>
  C9. Every write of a file performed by the start manager writes the state file, and
  writes one of the two strings \<^verbatim>\<open>SINGLE_NODE\<close> and \<^verbatim>\<open>CLUSTERED\<close>; the tag
  \<^verbatim>\<open>NEEDS_BOOTSTRAP\<close> is never written.
\<close>

theorem only_two_states_written:
  "\<forall>(path, contents) \<in> set (state_file_writes (trace (snd (boot m c fs)))).
     path = stateFileLocation m \<and> (contents = SINGLE_NODE \<or> contents = CLUSTERED)
     \<and> contents \<noteq> ''NEEDS_BOOTSTRAP''"
  using Execute_writes [of m c "\<lparr>files = fs, trace = []\<rparr>"]
  by (simp add: boot_def written_state_def SINGLE_NODE_def CLUSTERED_def)

theorem only_two_states_written_witness:
  "state_file_writes (trace (snd (boot node0_of_three all_succeed Map.empty))) = [(''/state'', ''CLUSTERED'')]
   \<and> stateFileLocation node0_of_three = ''/state'' \<and> ''CLUSTERED'' = CLUSTERED"
proof -
  have ev: "state_file_writes (trace (snd (boot node0_of_three all_succeed Map.empty))) =
      [(''/state'', ''CLUSTERED'')]"
    by code_simp
  show ?thesis
    using only_two_states_written [of node0_of_three all_succeed Map.empty] ev
    by (simp add: node0_of_three_def CLUSTERED_def)
qed

section \<open>Facts about the Node Starter\<close>

lemma start_actions_simps [simp]:
  "start_actions [] = []"
  "start_actions (e # es) =
     (case e of StartMysqlInBootstrap r \<Rightarrow> [Bootstrap] | StartMysqlInJoin r \<Rightarrow> [Join] | _ \<Rightarrow> [])
       @ start_actions es"
  "start_actions (xs @ ys) = start_actions xs @ start_actions ys"
  by (simp_all add: start_actions_def)

lemma reachability_probes_simps [simp]:
  "reachability_probes [] = []"
  "reachability_probes (e # es) =
     (case e of IsDatabaseReachable b \<Rightarrow> [b] | _ \<Rightarrow> []) @ reachability_probes es"
  "reachability_probes (xs @ ys) = reachability_probes xs @ reachability_probes ys"
  by (simp_all add: reachability_probes_def)

lemma seed_calls_simps [simp]:
  "seed_calls [] = []"
  "seed_calls (e # es) = (case e of Seed r \<Rightarrow> [r] | _ \<Rightarrow> []) @ seed_calls es"
  "seed_calls (xs @ ys) = seed_calls xs @ seed_calls ys"
  by (simp_all add: seed_calls_def)

lemma readinessPoll_start_actions [simp]:
  "start_actions (trace (snd (readinessPoll cfg c i n w))) = start_actions (trace w)"
  by (induction n arbitrary: i w) simp_all

lemma readinessPoll_seed_calls [simp]:
  "seed_calls (trace (snd (readinessPoll cfg c i n w))) = seed_calls (trace w)"
  by (induction n arbitrary: i w) simp_all

lemma readinessPoll_user_creations [simp]:
  "user_creations (trace (snd (readinessPoll cfg c i n w))) = user_creations (trace w)"
  by (induction n arbitrary: i w) simp_all

lemma readinessPoll_reachable:
  "fst (readinessPoll cfg c i n w) = (\<exists>k<n. isDatabaseReachable_result c (i + k))"
proof (induction n arbitrary: i w)
  case 0
  show ?case by simp
next
  case (Suc n)
  show ?case
  proof (cases "isDatabaseReachable_result c i")
    case True
    then show ?thesis by auto
  next
    case False
    have "(\<exists>k<Suc n. isDatabaseReachable_result c (i + k)) =
          (\<exists>k<n. isDatabaseReachable_result c (Suc i + k))"
      using False by (auto simp: less_Suc_eq_0_disj)
    with False Suc.IH show ?thesis by simp
  qed
qed

lemma readinessPoll_never_reachable:
  "\<forall>i. \<not> isDatabaseReachable_result c i \<Longrightarrow>
     reachability_probes (trace (snd (readinessPoll cfg c i n w))) =
       reachability_probes (trace w) @ replicate n False"
  by (induction n arbitrary: i w) (simp_all add: replicate_append_same)

lemma readinessPoll_ignores_health:
  "readinessPoll cfg (c\<lparr>healthyCluster_result := h\<rparr>) i n w = readinessPoll cfg c i n w"
  by (induction n arbitrary: i w) simp_all

lemma startAction_result: "fst (startAction c state w) = start_error c state"
  by (simp add: startAction_def start_error_def startInBootstrap_def startInJoin_def
      split: node_state.split)

lemma startAction_start_actions:
  "start_actions (trace (snd (startAction c state w))) =
     start_actions (trace w) @
       [case state of SingleNode \<Rightarrow> Bootstrap
        | NeedsBootstrap \<Rightarrow> (if healthyCluster_result c then Join else Bootstrap)
        | Clustered \<Rightarrow> Join]"
  by (simp add: startAction_def startInBootstrap_def startInJoin_def split: node_state.split)

lemma startAction_other_calls [simp]:
  "seed_calls (trace (snd (startAction c state w))) = seed_calls (trace w)"
  "user_creations (trace (snd (startAction c state w))) = user_creations (trace w)"
  "reachability_probes (trace (snd (startAction c state w))) = reachability_probes (trace w)"
  by (simp_all add: startAction_def startInBootstrap_def startInJoin_def split: node_state.split)

lemma StartNodeFromState_start_actions:
  "start_actions (trace (snd (StartNodeFromState cfg c state w))) =
     start_actions (trace w) @
       [case state of SingleNode \<Rightarrow> Bootstrap
        | NeedsBootstrap \<Rightarrow> (if healthyCluster_result c then Join else Bootstrap)
        | Clustered \<Rightarrow> Join]"
  by (simp add: StartNodeFromState_def case_prod_beta Let_def startAction_start_actions
      split: option.split)

lemma StartNodeFromState_result:
  "fst (StartNodeFromState cfg c state w) = Inr s \<longleftrightarrow>
     start_error c state = None
     \<and> (\<exists>k<maxAttempts cfg. isDatabaseReachable_result c (Suc k))
     \<and> seed_result c = None \<and> createReadOnlyUser_result c = None \<and> s = outputState state"
  by (auto simp: StartNodeFromState_def case_prod_beta Let_def startAction_result
      readinessPoll_reachable split: option.split)

lemma StartNodeFromState_ignores_health:
  "state \<noteq> NeedsBootstrap \<Longrightarrow>
     StartNodeFromState cfg (c\<lparr>healthyCluster_result := h\<rparr>) state w =
       StartNodeFromState cfg c state w"
  by (cases state)
     (simp_all add: StartNodeFromState_def startAction_def startInBootstrap_def startInJoin_def
        readinessPoll_ignores_health case_prod_beta Let_def split: option.split)

lemma StartNodeFromState_timeout:
  assumes "\<forall>i. \<not> isDatabaseReachable_result c i"
  shows "seed_calls (trace (snd (StartNodeFromState cfg c state w))) = seed_calls (trace w)"
    and "user_creations (trace (snd (StartNodeFromState cfg c state w))) = user_creations (trace w)"
    and "start_error c state = None \<Longrightarrow>
           fst (StartNodeFromState cfg c state w) = Inl timeoutError"
    and "start_error c state = None \<Longrightarrow>
           reachability_probes (trace (snd (StartNodeFromState cfg c state w))) =
             reachability_probes (trace w) @ replicate (maxAttempts cfg) False"
  using assms
  by (simp_all add: StartNodeFromState_def case_prod_beta Let_def startAction_result
      readinessPoll_reachable readinessPoll_never_reachable split: option.split)

subsection \<open>Scenarios of the test suite of the Node Starter\<close>

lemma starter_retries_until_reachable:
  "reachability_probes
     (trace (snd (start_node ten_by_five
                    (ready_at_once\<lparr>isDatabaseReachable_result := (\<lambda>i. 2 \<le> i)\<rparr>) Clustered))) =
     [False, True]
   \<and> fst (start_node ten_by_five
            (ready_at_once\<lparr>isDatabaseReachable_result := (\<lambda>i. 2 \<le> i)\<rparr>) Clustered) =
       Inr Clustered"
  by code_simp

lemma starter_forwards_start_error:
  "fst (start_node ten_by_five
          (ready_at_once\<lparr>startMysqlInBootstrap_result := Some (Error ''some errors'')\<rparr>) SingleNode) =
     Inl (Error ''some errors'')"
  by code_simp

lemma starter_forwards_seed_error:
  "fst (start_node ten_by_five
          (ready_at_once\<lparr>seed_result := Some (Error ''seeding databases failed'')\<rparr>) Clustered) =
     Inl (Error ''seeding databases failed'')
   \<and> user_creations
        (trace (snd (start_node ten_by_five
           (ready_at_once\<lparr>seed_result := Some (Error ''seeding databases failed'')\<rparr>) Clustered))) = []"
  by code_simp

section \<open>The claims about the Node Starter\<close>

text \<open>
  C1. For every start of the Node Starter with a target state tag: \<^verbatim>\<open>SINGLE_NODE\<close> issues
  a bootstrap action and returns \<^verbatim>\<open>SINGLE_NODE\<close>, whatever the cluster health is;
  \<^verbatim>\<open>NEEDS_BOOTSTRAP\<close> issues a bootstrap action when no peer is healthy and a join action
  when some peer is healthy, and returns \<^verbatim>\<open>CLUSTERED\<close>; \<^verbatim>\<open>CLUSTERED\<close> issues a join
  action and returns \<^verbatim>\<open>CLUSTERED\<close>, whatever the cluster health is. The action is the only
  start action of the run; a state is returned exactly when the start action, a probe
  among the \<open>N\<close> attempts, the seed and the creation of the read-only user all succeed, and
  it is then the state of the table.
\<close>

theorem node_starter_behaviour_table:
  "start_actions (trace (snd (start_node cfg c SingleNode))) = [Bootstrap]
   \<and> start_actions (trace (snd (start_node cfg c NeedsBootstrap))) =
       [if healthyCluster_result c then Join else Bootstrap]
   \<and> start_actions (trace (snd (start_node cfg c Clustered))) = [Join]
   \<and> start_node cfg (c\<lparr>healthyCluster_result := h\<rparr>) SingleNode = start_node cfg c SingleNode
   \<and> start_node cfg (c\<lparr>healthyCluster_result := h\<rparr>) Clustered = start_node cfg c Clustered
   \<and> (fst (start_node cfg c state) = Inr s \<longleftrightarrow>
        start_error c state = None
        \<and> (\<exists>k<maxAttempts cfg. isDatabaseReachable_result c (Suc k))
        \<and> seed_result c = None \<and> createReadOnlyUser_result c = None
        \<and> s = (case state of SingleNode \<Rightarrow> SingleNode | NeedsBootstrap \<Rightarrow> Clustered
                 | Clustered \<Rightarrow> Clustered))"
  by (simp add: start_node_def StartNodeFromState_start_actions StartNodeFromState_ignores_health
      StartNodeFromState_result outputState_def)

theorem node_starter_behaviour_table_witness:
  "fst (start_node ten_by_five ready_at_once SingleNode) = Inr SingleNode
   \<and> fst (start_node ten_by_five ready_at_once NeedsBootstrap) = Inr Clustered
   \<and> fst (start_node ten_by_five (ready_at_once\<lparr>healthyCluster_result := True\<rparr>) NeedsBootstrap) = Inr Clustered
   \<and> start_actions (trace (snd (start_node ten_by_five (ready_at_once\<lparr>healthyCluster_result := True\<rparr>) NeedsBootstrap))) = [Join]
   \<and> fst (start_node ten_by_five ready_at_once Clustered) = Inr Clustered"
proof -
  have ex: "\<exists>k<maxAttempts ten_by_five. isDatabaseReachable_result ready_at_once (Suc k)"
    by (rule exI [of _ 0]) (simp add: maxAttempts_def ten_by_five_def ready_at_once_def)
  then have ex': "\<exists>k<maxAttempts ten_by_five.
      isDatabaseReachable_result (ready_at_once\<lparr>healthyCluster_result := True\<rparr>) (Suc k)"
    by simp
  show ?thesis
    using node_starter_behaviour_table [of ten_by_five ready_at_once False SingleNode SingleNode]
      node_starter_behaviour_table [of ten_by_five ready_at_once False NeedsBootstrap Clustered]
      node_starter_behaviour_table [of ten_by_five "ready_at_once\<lparr>healthyCluster_result := True\<rparr>"
        False NeedsBootstrap Clustered]
      node_starter_behaviour_table [of ten_by_five ready_at_once False Clustered Clustered]
      ex ex'
    by (simp add: start_error_def ready_at_once_def)
qed

text \<open>
  C2. For every start in which every readiness probe returns false, the Node Starter never
  calls \<^verbatim>\<open>seed()\<close> or \<^verbatim>\<open>createReadOnlyUser()\<close>; and when its start action has returned
  without error it calls the probe exactly \<open>N = \<lfloor>T / P\<rfloor>\<close> times and returns the Timeout
  error, whose message contains \<^verbatim>\<open>Timeout\<close>.
\<close>

theorem readiness_timeout:
  assumes "\<forall>i. \<not> isDatabaseReachable_result c i"
    and "0 < StartupPollingFrequencyInSeconds cfg"
  shows "seed_calls (trace (snd (start_node cfg c state))) = []
         \<and> user_creations (trace (snd (start_node cfg c state))) = []
         \<and> (start_error c state = None \<longrightarrow>
              reachability_probes (trace (snd (start_node cfg c state))) =
                replicate (DatabaseStartupTimeout cfg div StartupPollingFrequencyInSeconds cfg) False
              \<and> (\<exists>e. fst (start_node cfg c state) = Inl e \<and> sublist ''Timeout'' (Error_msg e)))"
  using StartNodeFromState_timeout
      [OF assms(1), where cfg = cfg and state = state and w = "\<lparr>files = Map.empty, trace = []\<rparr>"]
  by (simp add: start_node_def maxAttempts_def timeoutError_def)

theorem readiness_timeout_witness:
  "(\<forall>i. \<not> isDatabaseReachable_result never_reachable i)
   \<and> 0 < StartupPollingFrequencyInSeconds ten_by_five
   \<and> start_error never_reachable Clustered = None
   \<and> reachability_probes (trace (snd (start_node ten_by_five never_reachable Clustered))) = [False, False]
   \<and> seed_calls (trace (snd (start_node ten_by_five never_reachable Clustered))) = []
   \<and> user_creations (trace (snd (start_node ten_by_five never_reachable Clustered))) = []
   \<and> fst (start_node ten_by_five never_reachable Clustered) = Inl (Error ''Timeout'')"
proof -
  have h: "\<forall>i. \<not> isDatabaseReachable_result never_reachable i"
    by (simp add: never_reachable_def)
  have p: "0 < StartupPollingFrequencyInSeconds ten_by_five"
    by (simp add: ten_by_five_def)
  have r: "fst (start_node ten_by_five never_reachable Clustered) = Inl (Error ''Timeout'')"
    by code_simp
  have n: "replicate (DatabaseStartupTimeout ten_by_five div StartupPollingFrequencyInSeconds ten_by_five) False
             = [False, False]"
    by (simp add: ten_by_five_def numeral_2_eq_2)
  show ?thesis
    using readiness_timeout [OF h p, where state = Clustered] h p r n
    by (simp add: start_error_def never_reachable_def ready_at_once_def)
qed

section \<open>The claim about the main program\<close>

text \<open>
  C10. If writing the PID file fails after the ready signal has been observed, \<^verbatim>\<open>main\<close>
  sends the kill signal to the started process, waits for it to exit, and then ends in
  \<^verbatim>\<open>logger.Fatal\<close> with a non-zero exit status; it does not go on to log that the
  controller has started.
\<close>

theorem pid_file_failure_is_fatal:
  assumes "configRead_result env = None"
    and "startup_result env = Ready"
    and "writeFile_result env = Some e"
  shows "main env =
           ([ReadConfig None, SelectProcessReady,
             LoggerInfo (''Writing pid to '' @ PidFile env),
             IoutilWriteFile (PidFile env) (pid env) (Some e),
             ProcessSignalKill, ProcessWait (wait_after_kill env),
             LoggerFatal ''Error writing pidfile'' (Some e)], ExitNonZero)
         \<and> LoggerInfo ''mariadb_ctrl started'' \<notin> set (fst (main env))"
  using assms by (simp add: main_def writePidFile_def)

theorem pid_file_failure_is_fatal_witness:
  "configRead_result pid_write_fails = None \<and> startup_result pid_write_fails = Ready
   \<and> writeFile_result pid_write_fails = Some (Error ''permission denied'')
   \<and> snd (main pid_write_fails) = ExitNonZero
   \<and> drop 4 (fst (main pid_write_fails)) =
       [ProcessSignalKill, ProcessWait None,
        LoggerFatal ''Error writing pidfile'' (Some (Error ''permission denied''))]"
  using pid_file_failure_is_fatal [of pid_write_fails "Error ''permission denied''"]
  by (simp add: pid_write_fails_def)

end
